theory Spec2Isabelle
  imports Main
begin

section \<open>Strings\<close>

text \<open>
  A Python \<open>str\<close> is a sequence of Unicode code points, so a string is a list of
  code points (natural numbers), not a list of bytes.  \<open>asc\<close> embeds an ASCII literal.
  The Korean literals of the source are written as code points, with a transliteration
  beside each.
\<close>

type_synonym ustr = "nat list"

definition asc :: "string \<Rightarrow> ustr" where
  "asc s = map of_char s"

text \<open>\<open>str.isspace\<close>: the code points that \<open>str.strip()\<close> removes.\<close>

definition is_space :: "nat \<Rightarrow> bool" where
  "is_space c \<longleftrightarrow>
     (0x09 \<le> c \<and> c \<le> 0x0D) \<or> (0x1C \<le> c \<and> c \<le> 0x20) \<or> c = 0x85 \<or> c = 0xA0 \<or>
     c = 0x1680 \<or> (0x2000 \<le> c \<and> c \<le> 0x200A) \<or> c = 0x2028 \<or> c = 0x2029 \<or>
     c = 0x202F \<or> c = 0x205F \<or> c = 0x3000"

text \<open>\<open>s.strip()\<close>: drop leading whitespace, then trailing whitespace.\<close>

definition strip :: "ustr \<Rightarrow> ustr" where
  "strip s = rev (dropWhile is_space (rev (dropWhile is_space s)))"

text \<open>\<open>s.replace(old, new)\<close> for a one-character \<open>old\<close>.\<close>

fun replace1 :: "nat \<Rightarrow> ustr \<Rightarrow> ustr \<Rightarrow> ustr" where
  "replace1 old new [] = []"
| "replace1 old new (c # s) = (if c = old then new @ replace1 old new s else c # replace1 old new s)"

text \<open>\<open>sep.join(parts)\<close>.\<close>

fun join :: "ustr \<Rightarrow> ustr list \<Rightarrow> ustr" where
  "join sep [] = []"
| "join sep [p] = p"
| "join sep (p # q # ps) = p @ sep @ join sep (q # ps)"

text \<open>\<open>str(n)\<close> for a non-negative integer, as the f-strings render \<open>len(triples)\<close>.\<close>

fun digits :: "nat \<Rightarrow> nat \<Rightarrow> ustr" where
  "digits 0 n = []"
| "digits (Suc fuel) n = (if n < 10 then [48 + n] else digits fuel (n div 10) @ [48 + n mod 10])"

definition str_nat :: "nat \<Rightarrow> ustr" where
  "str_nat n = digits (Suc n) n"

section \<open>Regular expressions as \<open>re\<close> runs them\<close>

text \<open>
  The three patterns of \<open>mock_nlp_to_triples\<close> use literals, capturing groups, the
  classes \<open>.\<close>, \<open>\w\<close> and \<open>[A-Z]\<close>, and repetition of a single class, greedy
  (\<open>{1,3}\<close>) or lazy (\<open>+?\<close>).  A pattern is the sequence of its parts in the order
  the matcher meets them; a group \<open>k\<close> is delimited by the marks \<open>2k-2\<close> and \<open>2k-1\<close>,
  which record the position where the group opens and closes.

  \<open>\w\<close> on a \<open>str\<close> pattern is "alphanumeric in the Unicode database, or underscore".
  The Unicode table is not part of the program: it is the parameter \<open>alnum\<close> of the
  matcher, and every theorem below holds for any table.
\<close>

datatype cls = Dot | Word | Range nat nat

datatype item =
    Lit ustr
  | Mark nat
  | Rep cls nat "nat option" bool

fun cls_ok :: "(nat \<Rightarrow> bool) \<Rightarrow> cls \<Rightarrow> nat \<Rightarrow> bool" where
  "cls_ok alnum Dot c = (c \<noteq> 10)"
| "cls_ok alnum Word c = (alnum c \<or> c = 95)"
| "cls_ok alnum (Range a b) c = (a \<le> c \<and> c \<le> b)"

fun first_some :: "('a \<Rightarrow> 'b option) \<Rightarrow> 'a list \<Rightarrow> 'b option" where
  "first_some f [] = None"
| "first_some f (x # xs) = (case f x of Some y \<Rightarrow> Some y | None \<Rightarrow> first_some f xs)"

type_synonym marks = "nat \<Rightarrow> nat option"

text \<open>
  Backtracking match of the rest of a pattern against the rest \<open>s\<close> of the text, which
  starts at position \<open>pos\<close>.  A repetition consumes as many characters of its class as
  are there (at most its upper bound) and tries the rest of the pattern after each
  admissible count: from the largest down when greedy, from the smallest up when lazy.
  The result is the end position and the marks of the first alternative that matches.
\<close>

fun rx_match :: "(nat \<Rightarrow> bool) \<Rightarrow> item list \<Rightarrow> ustr \<Rightarrow> nat \<Rightarrow> marks \<Rightarrow> (nat \<times> marks) option" where
  "rx_match alnum [] s pos mk = Some (pos, mk)"
| "rx_match alnum (Lit cs # r) s pos mk =
     (if take (length cs) s = cs then rx_match alnum r (drop (length cs) s) (pos + length cs) mk
      else None)"
| "rx_match alnum (Mark k # r) s pos mk = rx_match alnum r s pos (mk(k \<mapsto> pos))"
| "rx_match alnum (Rep cl lo hi greedy # r) s pos mk =
     (let avail = length (takeWhile (cls_ok alnum cl) s);
          n_max = (case hi of None \<Rightarrow> avail | Some h \<Rightarrow> min h avail);
          counts = (if greedy then rev [lo..<Suc n_max] else [lo..<Suc n_max])
      in first_some (\<lambda>n. rx_match alnum r (drop n s) (pos + n) mk) counts)"

text \<open>
  The scan of \<open>findall\<close>: try each start position from the left; after a match continue
  at its end, so matches do not overlap.  (After an empty match the scan moves one
  position on; the three patterns below all contain literals and never match the empty
  string.)
\<close>

function scan :: "(nat \<Rightarrow> bool) \<Rightarrow> item list \<Rightarrow> ustr \<Rightarrow> nat \<Rightarrow> (nat \<times> nat \<times> marks) list" where
  "scan alnum p text i =
     (if length text < i then []
      else case rx_match alnum p (drop i text) i Map.empty of
             None \<Rightarrow> scan alnum p text (Suc i)
           | Some (e, mk) \<Rightarrow> (i, e, mk) # scan alnum p text (if e \<le> i then Suc i else e))"
  by pat_completeness auto
termination
  by (relation "measure (\<lambda>(alnum, p, text, i). Suc (length text) - i)") auto

declare scan.simps [simp del]

definition ngroups :: "item list \<Rightarrow> nat" where
  "ngroups p = length (filter (\<lambda>it. case it of Mark k \<Rightarrow> even k | _ \<Rightarrow> False) p)"

text \<open>The text of group \<open>k\<close>; a group that took no part in the match reads as \<open>''\<close>.\<close>

definition match_group :: "ustr \<Rightarrow> marks \<Rightarrow> nat \<Rightarrow> ustr" where
  "match_group text mk k =
     (case (mk (2 * k - 2), mk (2 * k - 1)) of
        (Some a, Some b) \<Rightarrow> take (b - a) (drop a text)
      | _ \<Rightarrow> [])"

text \<open>
  \<open>re.findall(p, text)\<close>: with no group the matched texts, with one group its texts,
  with several groups the tuple of all groups for each match.  A tuple is a list here,
  since Python checks its length only where it is unpacked.
\<close>

definition findall :: "(nat \<Rightarrow> bool) \<Rightarrow> item list \<Rightarrow> ustr \<Rightarrow> ustr list list" where
  "findall alnum p text =
     map (\<lambda>(i, e, mk).
            if ngroups p = 0 then [take (e - i) (drop i text)]
            else map (match_group text mk) [1..<Suc (ngroups p)])
         (scan alnum p text 0)"

section \<open>The patterns of the source\<close>

text \<open>\<open>(peurojekteu [A-Z]{1,3})eun (.+? gisul)eul\<close>: project uses technology.\<close>

definition pat_project_tech :: "item list" where
  "pat_project_tech =
     [Mark 0, Lit [0xD504, 0xB85C, 0xC81D, 0xD2B8, 0x20], Rep (Range 65 90) 1 (Some 3) True, Mark 1,
      Lit [0xC740, 0x20],
      Mark 2, Rep Dot 1 None False, Lit [0x20, 0xAE30, 0xC220], Mark 3,
      Lit [0xC744]]"

text \<open>\<open>(\w+? keompeoni)eseo (peurojekteu [A-Z]{1,3})reul suhaeng\<close>: company conducts project.\<close>

definition pat_company_proj :: "item list" where
  "pat_company_proj =
     [Mark 0, Rep Word 1 None False, Lit [0x20, 0xCEF4, 0xD37C, 0xB2C8], Mark 1,
      Lit [0xC5D0, 0xC11C, 0x20],
      Mark 2, Lit [0xD504, 0xB85C, 0xC81D, 0xD2B8, 0x20], Rep (Range 65 90) 1 (Some 3) True, Mark 3,
      Lit [0xB97C, 0x20, 0xC218, 0xD589]]"

text \<open>\<open>(\w+? keompeoni)neun (.+? saneop) bunyaui\<close>: company belongs to industry.\<close>

definition pat_company_industry :: "item list" where
  "pat_company_industry =
     [Mark 0, Rep Word 1 None False, Lit [0x20, 0xCEF4, 0xD37C, 0xB2C8], Mark 1,
      Lit [0xB294, 0x20],
      Mark 2, Rep Dot 1 None False, Lit [0x20, 0xC0B0, 0xC5C5], Mark 3,
      Lit [0x20, 0xBD84, 0xC57C, 0xC758]]"

section \<open>Printed messages\<close>

text \<open>
  Each \<open>print\<close> call appends one entry to the standard output, modelled as the list
  of the printed texts.  The literal parts of the messages:
\<close>

definition msg_query_error :: ustr where \<comment> \<open>ERROR: error while running the query: \<close>
  "msg_query_error =
     [69, 82, 82, 79, 82, 58, 32, 53244, 47532, 32, 49892, 54665, 32, 51473, 32, 50724, 47448,
      32, 48156, 49373, 58, 32]"

definition msg_query :: ustr where \<comment> \<open>query: \<close>
  "msg_query =
     [53244, 47532, 58, 32]"

definition msg_pdf_file :: ustr where \<comment> \<open>PDF file '\<close>
  "msg_pdf_file =
     [80, 68, 70, 32, 54028, 51068, 32, 39]"

definition msg_pdf_done :: ustr where \<comment> \<open>': text extraction finished.\<close>
  "msg_pdf_done =
     [39, 50640, 49436, 32, 53581, 49828, 53944, 32, 52628, 52636, 32, 50756, 47308, 46]"

definition msg_pdf_error :: ustr where \<comment> \<open>ERROR: error while processing the PDF file: \<close>
  "msg_pdf_error =
     [69, 82, 82, 79, 82, 58, 32, 80, 68, 70, 32, 54028, 51068, 32, 52376, 47532, 32, 51473,
      32, 50724, 47448, 32, 48156, 49373, 58, 32]"

definition msg_nlp_start :: ustr where \<comment> \<open>[mock NLP analysis] extraction of triples from the text starts...\<close>
  "msg_nlp_start =
     [10, 91, 78, 76, 80, 32, 47784, 51032, 32, 48516, 49437, 93, 32, 53581, 49828, 53944,
      50640, 49436, 32, 54645, 49900, 32, 49340, 51473, 54637, 32, 52628, 52636, 32, 49884,
      51089, 46, 46, 46]"

definition msg_total :: ustr where \<comment> \<open>in total \<close>
  "msg_total =
     [52509, 32]"

definition msg_total_done :: ustr where \<comment> \<open> candidate triples extracted.\<close>
  "msg_total_done =
     [44060, 51032, 32, 51104, 51116, 51201, 32, 49340, 51473, 54637, 32, 52628, 52636, 32,
      50756, 47308, 46]"

definition msg_pipeline_start :: ustr where \<comment> \<open>knowledge graph pipeline starts: \<close>
  "msg_pipeline_start =
     [51648, 49885, 32, 44536, 47000, 54532, 32, 51088, 46041, 54868, 32, 54028, 51060, 54532,
      46972, 51064, 32, 49884, 51089, 58, 32]"

definition msg_no_triples :: ustr where \<comment> \<open>no valid relation was extracted. Stopping.\<close>
  "msg_no_triples =
     [52628, 52636, 46108, 32, 50976, 54952, 54620, 32, 44288, 44228, 44032, 32, 50630, 49845,
      45768, 45796, 46, 32, 51333, 47308, 54633, 45768, 45796, 46]"

definition msg_debug_saved :: ustr where \<comment> \<open>[debugging] generated Cypher query saved to 'generated_cypher.cypher'.\<close>
  "msg_debug_saved =
     [10, 91, 46356, 48260, 44613, 93, 32, 49373, 49457, 46108, 32, 67, 121, 112, 104, 101,
      114, 32, 53244, 47532, 32, 39, 103, 101, 110, 101, 114, 97, 116, 101, 100, 95, 99, 121,
      112, 104, 101, 114, 46, 99, 121, 112, 104, 101, 114, 39, 50640, 32, 51200, 51109, 32,
      50756, 47308, 46]"

definition msg_loading :: ustr where \<comment> \<open>[Neo4j loading] inserting data into the knowledge graph...\<close>
  "msg_loading =
     [10, 91, 78, 101, 111, 52, 106, 32, 47196, 46377, 93, 32, 51648, 49885, 32, 44536, 47000,
      54532, 50640, 32, 45936, 51060, 53552, 32, 49341, 51077, 32, 49884, 51089, 46, 46, 46]"

definition msg_success :: ustr where \<comment> \<open>data inserted successfully!\<close>
  "msg_success =
     [10, 9989, 32, 45936, 51060, 53552, 32, 49341, 51077, 32, 49457, 44277, 33]"

definition msg_nodes :: ustr where \<comment> \<open>  > nodes created: \<close>
  "msg_nodes =
     [32, 32, 62, 32, 49373, 49457, 46108, 32, 45432, 46300, 58, 32]"

definition msg_relationships :: ustr where \<comment> \<open>  > relationships created: \<close>
  "msg_relationships =
     [32, 32, 62, 32, 49373, 49457, 46108, 32, 44288, 44228, 58, 32]"

definition msg_failure :: ustr where \<comment> \<open>data insertion failed. Check the log.\<close>
  "msg_failure =
     [10, 10060, 32, 45936, 51060, 53552, 32, 49341, 51077, 32, 49892, 54056, 46, 32, 47196,
      44536, 47484, 32, 54869, 51064, 54616, 49464, 50836, 46]"

definition print :: "ustr \<Rightarrow> ustr list \<Rightarrow> ustr list" where
  "print line out = out @ [line]"

section \<open>Extraction: \<open>mock_nlp_to_triples\<close>\<close>

text \<open>
  The exceptions the model can raise: \<open>ValueError\<close> where a tuple is unpacked into the
  wrong number of names, \<open>OSError\<close> where a file cannot be opened or written,
  \<open>UnicodeEncodeError\<close> where a text that holds a lone surrogate is encoded as UTF-8,
  and \<open>AttributeError\<close> where an object lacks the attribute that is read.
\<close>

datatype error = ValueError | OSError | UnicodeEncodeError | AttributeError

text \<open>A triple: (node 1 type, node 1 name, relation, node 2 type, node 2 name).\<close>

type_synonym triple = "ustr \<times> ustr \<times> ustr \<times> ustr \<times> ustr"

text \<open>\<open>a, b = m\<close> raises \<open>ValueError\<close> unless \<open>m\<close> has exactly two elements.\<close>

fun unpack2 :: "ustr list \<Rightarrow> error + (ustr \<times> ustr)" where
  "unpack2 [a, b] = Inr (a, b)"
| "unpack2 m = Inl ValueError"

text \<open>
  \<open>for a, b in matches: triples.append(mk(a.strip(), b.strip()))\<close>: the three loops
  of the source differ only in the constant fields \<open>mk\<close> puts around the two names.
\<close>

fun append_matches :: "(ustr \<Rightarrow> ustr \<Rightarrow> triple) \<Rightarrow> ustr list list \<Rightarrow> triple list \<Rightarrow> error + triple list" where
  "append_matches mk [] triples = Inr triples"
| "append_matches mk (m # ms) triples =
     (case unpack2 m of
        Inl e \<Rightarrow> Inl e
      | Inr (a, b) \<Rightarrow> append_matches mk ms (triples @ [mk (strip a) (strip b)]))"

definition uses_tech :: "ustr \<Rightarrow> ustr \<Rightarrow> triple" where
  "uses_tech proj tech = (asc ''Project'', proj, asc ''USES_TECH'', asc ''Technology'', tech)"

definition conducts :: "ustr \<Rightarrow> ustr \<Rightarrow> triple" where
  "conducts company proj = (asc ''Company'', company, asc ''CONDUCTS'', asc ''Project'', proj)"

definition belongs_to :: "ustr \<Rightarrow> ustr \<Rightarrow> triple" where
  "belongs_to company ind = (asc ''Company'', company, asc ''BELONGS_TO'', asc ''Industry'', ind)"

text \<open>
  The function takes the standard output and returns it with what it printed; an
  exception leaves the function before the closing message.
\<close>

definition mock_nlp_to_triples ::
    "(nat \<Rightarrow> bool) \<Rightarrow> ustr \<Rightarrow> ustr list \<Rightarrow> (error + triple list) \<times> ustr list" where
  "mock_nlp_to_triples alnum text out =
     (let out = print msg_nlp_start out;
          triples = []
      in case append_matches uses_tech (findall alnum pat_project_tech text) triples of
           Inl e \<Rightarrow> (Inl e, out)
         | Inr triples \<Rightarrow>
      (case append_matches conducts (findall alnum pat_company_proj text) triples of
           Inl e \<Rightarrow> (Inl e, out)
         | Inr triples \<Rightarrow>
      (case append_matches belongs_to (findall alnum pat_company_industry text) triples of
           Inl e \<Rightarrow> (Inl e, out)
         | Inr triples \<Rightarrow>
             (Inr triples, print (msg_total @ str_nat (length triples) @ msg_total_done) out))))"

section \<open>Compilation: \<open>generate_cypher_query\<close>\<close>

text \<open>The f-string of the loop body, with the two names already escaped.\<close>

definition cypher_text :: "ustr \<Rightarrow> ustr \<Rightarrow> ustr \<Rightarrow> ustr \<Rightarrow> ustr \<Rightarrow> ustr" where
  "cypher_text n1_type n1_name_safe relation n2_type n2_name_safe =
     [10] @ asc ''        MERGE (n1:'' @ n1_type @ asc '' {name: '' @ [39] @ n1_name_safe @ [39] @ asc ''})'' @
     [10] @ asc ''        MERGE (n2:'' @ n2_type @ asc '' {name: '' @ [39] @ n2_name_safe @ [39] @ asc ''})'' @
     [10] @ asc ''        MERGE (n1)-[:'' @ relation @ asc '']->(n2);'' @
     [10] @ asc ''        ''"

text \<open>The loop over the triples, with the list \<open>cypher_parts\<close> it appends to.\<close>

fun cypher_loop :: "triple list \<Rightarrow> ustr list \<Rightarrow> ustr list" where
  "cypher_loop [] cypher_parts = cypher_parts"
| "cypher_loop ((n1_type, n1_name, relation, n2_type, n2_name) # triples) cypher_parts =
     (let n1_name_safe = replace1 39 [92, 39] n1_name;
          n2_name_safe = replace1 39 [92, 39] n2_name;
          cypher = cypher_text n1_type n1_name_safe relation n2_type n2_name_safe
      in cypher_loop triples (cypher_parts @ [cypher]))"

definition generate_cypher_query :: "triple list \<Rightarrow> ustr" where
  "generate_cypher_query triples = join [10] (cypher_loop triples [])"

section \<open>The collaborators and the orchestrator\<close>

text \<open>
  The PDF library, the graph database driver and the file system are outside the
  program.  What the program sees of them is a parameter of the model:
  \<^item> \<open>unicode_alnum\<close>: the Unicode table behind \<open>\w\<close>;
  \<^item> \<open>pdf_pages path\<close>: \<open>pdfplumber.open(path)\<close> raises (with a message), or gives the
    pages, each with the result of its \<open>extract_text()\<close> (\<open>None\<close> for a page without text);
  \<^item> \<open>session_run query\<close>: \<open>session.run(query).consume()\<close> raises (with a message), or
    gives a summary, whose \<open>counters\<close> object the program returns;
  \<^item> \<open>can_write\<close>: whether the file system lets \<open>generated_cypher.cypher\<close> be
    opened and written.

  An object is the list of its attributes, each an integer here, and reading an
  attribute the object does not have raises \<open>AttributeError\<close>.  An object is truthy,
  as a Python object is unless its class says otherwise.
\<close>

type_synonym pyobject = "(ustr \<times> int) list"

definition getattr :: "pyobject \<Rightarrow> ustr \<Rightarrow> error + int" where
  "getattr obj name = (case map_of obj name of None \<Rightarrow> Inl AttributeError | Some v \<Rightarrow> Inr v)"

text \<open>
  The \<open>SummaryCounters\<close> of the neo4j driver, with the counts of created nodes and
  relationships given and the other counts zero.  (Its two boolean properties,
  \<open>contains_updates\<close> and \<open>contains_system_updates\<close>, are left out.)  None of its
  attributes is called \<open>nodes\<close> or \<open>relationships\<close>.
\<close>

definition summary_counters :: "int \<Rightarrow> int \<Rightarrow> pyobject" where
  "summary_counters n r =
     [(asc ''nodes_created'', n), (asc ''nodes_deleted'', 0),
      (asc ''relationships_created'', r), (asc ''relationships_deleted'', 0),
      (asc ''properties_set'', 0), (asc ''labels_added'', 0), (asc ''labels_removed'', 0),
      (asc ''indexes_added'', 0), (asc ''indexes_removed'', 0),
      (asc ''constraints_added'', 0), (asc ''constraints_removed'', 0),
      (asc ''system_updates'', 0)]"

record env =
  unicode_alnum :: "nat \<Rightarrow> bool"
  pdf_pages :: "ustr \<Rightarrow> ustr + ustr option list"
  session_run :: "ustr \<Rightarrow> ustr + pyobject"
  can_write :: bool

text \<open>
  What a run changes: the standard output, the files written (name and content), and
  the queries submitted to the database.  The codec of the standard output is not fixed
  by the program, and printing is taken to succeed; the codec of the written file is
  fixed by the program (UTF-8), and writing a lone surrogate fails.
\<close>

record world =
  stdout :: "ustr list"
  files :: "(ustr \<times> ustr) list"
  submitted :: "ustr list"

definition say :: "ustr \<Rightarrow> world \<Rightarrow> world" where
  "say line w = w\<lparr>stdout := print line (stdout w)\<rparr>"

definition str_int :: "int \<Rightarrow> ustr" where
  "str_int i = (if i < 0 then 45 # str_nat (nat (- i)) else str_nat (nat i))"

text \<open>
  \<open>Neo4jConnector.execute_cypher\<close>: the counters, or \<open>None\<close> after printing the error
  and the query when the driver raised.
\<close>

definition execute_cypher :: "env \<Rightarrow> ustr \<Rightarrow> world \<Rightarrow> pyobject option \<times> world" where
  "execute_cypher env cypher_query w =
     (let w = w\<lparr>submitted := submitted w @ [cypher_query]\<rparr>
      in case session_run env cypher_query of
           Inr counters \<Rightarrow> (Some counters, w)
         | Inl e \<Rightarrow> (None, say (msg_query @ cypher_query) (say (msg_query_error @ e) w)))"

text \<open>
  \<open>full_text += page.extract_text() + "\n\n"\<close> over the pages; \<open>None + "\n\n"\<close> raises
  \<open>TypeError\<close>, which is \<open>None\<close> here.
\<close>

fun read_pages :: "ustr option list \<Rightarrow> ustr \<Rightarrow> ustr option" where
  "read_pages [] full_text = Some full_text"
| "read_pages (None # pages) full_text = None"
| "read_pages (Some t # pages) full_text = read_pages pages (full_text @ t @ [10, 10])"

text \<open>\<open>extract_text_from_pdf\<close>: every exception is caught, printed, and turned into \<open>""\<close>.\<close>

definition extract_text_from_pdf :: "env \<Rightarrow> ustr \<Rightarrow> world \<Rightarrow> ustr \<times> world" where
  "extract_text_from_pdf env pdf_path w =
     (case pdf_pages env pdf_path of
        Inl e \<Rightarrow> ([], say (msg_pdf_error @ e) w)
      | Inr pages \<Rightarrow>
          (case read_pages pages [] of
             None \<Rightarrow>
               ([], say (msg_pdf_error @
                         asc ''unsupported operand type(s) for +: '' @ [39] @ asc ''NoneType'' @ [39] @
                         asc '' and '' @ [39] @ asc ''str'' @ [39]) w)
           | Some full_text \<Rightarrow> (full_text, say (msg_pdf_file @ pdf_path @ msg_pdf_done) w)))"

text \<open>
  The result record of the specification.  The source builds no such value: each
  \<open>return\<close> of \<open>automated_kg_pipeline\<close> is bare and the function body ends without
  one, so what a run returns is Python's \<open>None\<close>, the \<open>None\<close> of \<open>Returned\<close>.
\<close>

record pipeline_result =
  triplesExtracted :: nat
  triplesAfterDedup :: nat
  statementsSubmitted :: nat
  nodesAffected :: int
  edgesAffected :: int
  succeeded :: bool

datatype outcome = Raised error | Returned "pipeline_result option"

text \<open>
  Whether a text can be encoded as UTF-8: it holds no surrogate code point.
\<close>

definition utf8_encodable :: "ustr \<Rightarrow> bool" where
  "utf8_encodable s = list_all (\<lambda>c. \<not> (0xD800 \<le> c \<and> c \<le> 0xDFFF)) s"

text \<open>
  \<open>automated_kg_pipeline\<close>.  The file is written inside no \<open>try\<close>: when it cannot be
  opened the run raises \<open>OSError\<close>; when the query cannot be encoded, \<open>open\<close> has
  created the file and \<open>f.write\<close> raises, leaving it empty.  After a successful
  insertion the counts are read from the counters as \<open>counters.nodes\<close> and
  \<open>counters.relationships\<close>, inside no \<open>try\<close> either.
\<close>

definition automated_kg_pipeline :: "env \<Rightarrow> ustr \<Rightarrow> world \<Rightarrow> outcome \<times> world" where
  "automated_kg_pipeline env pdf_path w =
     (let w = say (replicate 50 61) w;
          w = say (msg_pipeline_start @ pdf_path) w;
          w = say (replicate 50 61) w;
          (document_text, w) = extract_text_from_pdf env pdf_path w
      in if document_text = [] then (Returned None, w)
         else
           (case mock_nlp_to_triples (unicode_alnum env) document_text (stdout w) of
              (Inl e, out) \<Rightarrow> (Raised e, w\<lparr>stdout := out\<rparr>)
            | (Inr triples_list, out) \<Rightarrow>
                (let w = w\<lparr>stdout := out\<rparr>
                 in if triples_list = [] then (Returned None, say msg_no_triples w)
                    else
                      (let full_cypher_query = generate_cypher_query triples_list
                       in if \<not> can_write env then (Raised OSError, w)
                          else if \<not> utf8_encodable full_cypher_query then
                            (Raised UnicodeEncodeError,
                             w\<lparr>files := files w @ [(asc ''generated_cypher.cypher'', [])]\<rparr>)
                          else
                            (let w = w\<lparr>files := files w @ [(asc ''generated_cypher.cypher'', full_cypher_query)]\<rparr>;
                                 w = say msg_debug_saved w;
                                 w = say msg_loading w;
                                 (result, w) = execute_cypher env full_cypher_query w
                             in case result of
                                  Some counters \<Rightarrow>
                                    (let w = say msg_success w
                                     in case getattr counters (asc ''nodes'') of
                                          Inl e \<Rightarrow> (Raised e, w)
                                        | Inr n \<Rightarrow>
                                            (let w = say (msg_nodes @ str_int n) w
                                             in case getattr counters (asc ''relationships'') of
                                                  Inl e \<Rightarrow> (Raised e, w)
                                                | Inr r \<Rightarrow>
                                                    (Returned None,
                                                     say (replicate 50 61)
                                                       (say (msg_relationships @ str_int r) w))))
                                | None \<Rightarrow>
                                    (Returned None, say (replicate 50 61) (say msg_failure w)))))))"

section \<open>The sink's string literals\<close>

text \<open>
  The statements are Cypher text, and a name sits in them between single quotes.  How
  the database reads such a literal is not in the program; the model below follows the
  Cypher manual: the literal ends at the first quote that is not escaped, and a
  backslash escapes the character after it (\<open>\'\<close>, \<open>\"\<close>, \<open>\\\<close> stand for themselves,
  \<open>\t \b \n \r \f\<close> for control characters).  The \<open>replace\<close> of the source relies on
  exactly this reading of \<open>\'\<close>.  Other escapes (\<open>\uXXXX\<close>) are rejected here.

  \<open>read_quoted s\<close> reads the body of a literal from just after the opening quote and
  gives the value and the text after the closing quote, or \<open>None\<close> when the text does
  not hold a well-formed literal.
\<close>

definition unescape :: "nat \<Rightarrow> nat option" where
  "unescape c =
     (if c = 39 \<or> c = 34 \<or> c = 92 then Some c
      else if c = 116 then Some 9
      else if c = 98 then Some 8
      else if c = 110 then Some 10
      else if c = 114 then Some 13
      else if c = 102 then Some 12
      else None)"

fun read_quoted :: "ustr \<Rightarrow> (ustr \<times> ustr) option" where
  "read_quoted [] = None"
| "read_quoted [c] = (if c = 39 then Some ([], []) else None)"
| "read_quoted (c # d # s) =
     (if c = 39 then Some ([], d # s)
      else if c = 92 then
        (case unescape d of
           None \<Rightarrow> None
         | Some x \<Rightarrow> (case read_quoted s of None \<Rightarrow> None | Some (v, rest) \<Rightarrow> Some (x # v, rest)))
      else (case read_quoted (d # s) of None \<Rightarrow> None | Some (v, rest) \<Rightarrow> Some (c # v, rest)))"

section \<open>Notions used in the properties\<close>

text \<open>The statement the loop of \<open>generate_cypher_query\<close> compiles from one triple.\<close>

definition cypher_of :: "triple \<Rightarrow> ustr" where
  "cypher_of t =
     (case t of (n1_type, n1_name, relation, n2_type, n2_name) \<Rightarrow>
        cypher_text n1_type (replace1 39 [92, 39] n1_name) relation
                    n2_type (replace1 39 [92, 39] n2_name))"


text \<open>
  The triple a rule makes of one match: the two groups, trimmed, inside the constant
  fields of the rule.
\<close>

definition rule_triple :: "(ustr \<Rightarrow> ustr \<Rightarrow> triple) \<Rightarrow> ustr \<Rightarrow> nat \<times> nat \<times> marks \<Rightarrow> triple" where
  "rule_triple f txt m = (case m of (i, e, mk) \<Rightarrow> f (strip (match_group txt mk 1)) (strip (match_group txt mk 2)))"

definition relation_of :: "triple \<Rightarrow> ustr" where
  "relation_of t = (case t of (n1_type, n1_name, relation, n2_type, n2_name) \<Rightarrow> relation)"


text \<open>
  A part of the Unicode table, for running the examples: the ASCII letters and digits
  and the Hangul syllables are alphanumeric.  The examples contain no other
  alphanumeric character.
\<close>

definition alnum_basic :: "nat \<Rightarrow> bool" where
  "alnum_basic c \<longleftrightarrow>
     (48 \<le> c \<and> c \<le> 57) \<or> (65 \<le> c \<and> c \<le> 90) \<or> (97 \<le> c \<and> c \<le> 122) \<or>
     (0xAC00 \<le> c \<and> c \<le> 0xD7A3)"

text \<open>Example texts.\<close>

definition sentence_aaa :: ustr where \<comment> \<open>peurojekteu AAA-eun Python gisul-eul: "project AAA (uses) the Python technology"\<close>
  "sentence_aaa =
     [0xD504, 0xB85C, 0xC81D, 0xD2B8, 32, 65, 65, 65, 0xC740, 32, 80, 121, 116, 104, 111, 110,
      32, 0xAE30, 0xC220, 0xC744]"

definition text_twice :: ustr where \<comment> \<open>the sentence above twice, each followed by " sayong."\<close>
  "text_twice =
     [0xD504, 0xB85C, 0xC81D, 0xD2B8, 32, 65, 65, 65, 0xC740, 32, 80, 121, 116, 104, 111, 110,
      32, 0xAE30, 0xC220, 0xC744, 32, 0xC0AC, 0xC6A9, 46, 32, 0xD504, 0xB85C, 0xC81D, 0xD2B8,
      32, 65, 65, 65, 0xC740, 32, 80, 121, 116, 104, 111, 110, 32, 0xAE30, 0xC220, 0xC744, 32,
      0xC0AC, 0xC6A9, 46]"

definition text_shadowed :: ustr where \<comment> \<open>"peurojekteu A-eun " followed by the sentence above\<close>
  "text_shadowed =
     [0xD504, 0xB85C, 0xC81D, 0xD2B8, 32, 65, 0xC740, 32, 0xD504, 0xB85C, 0xC81D, 0xD2B8, 32,
      65, 65, 65, 0xC740, 32, 80, 121, 116, 104, 111, 110, 32, 0xAE30, 0xC220, 0xC744]"

definition prefix_bbb :: ustr where \<comment> \<open>peurojekteu BBB-eun AWS gisul-eul sayong. : "project BBB uses the AWS technology. "\<close>
  "prefix_bbb =
     [0xD504, 0xB85C, 0xC81D, 0xD2B8, 32, 66, 66, 66, 0xC740, 32, 65, 87, 83, 32, 0xAE30,
      0xC220, 0xC744, 32, 0xC0AC, 0xC6A9, 46, 32]"

definition text_ccc :: ustr where \<comment> \<open>the last sentence of the sample report in the source: company C conducted project CCC, and project CCC used the Java technology\<close>
  "text_ccc =
     [67, 32, 0xCEF4, 0xD37C, 0xB2C8, 0xC5D0, 0xC11C, 32, 0xD504, 0xB85C, 0xC81D, 0xD2B8, 32,
      67, 67, 67, 0xB97C, 32, 0xC218, 0xD589, 0xD588, 0xC73C, 0xBA70, 44, 32, 0xD504, 0xB85C,
      0xC81D, 0xD2B8, 32, 67, 67, 67, 0xC740, 32, 74, 97, 118, 97, 32, 0xAE30, 0xC220, 0xC744,
      32, 0xC0AC, 0xC6A9, 0xD588, 0xC2B5, 0xB2C8, 0xB2E4, 46]"

definition text_quote :: ustr where \<comment> \<open>peurojekteu A-eun x\\' gisul-eul: a technology name holding a backslash and an apostrophe\<close>
  "text_quote =
     [0xD504, 0xB85C, 0xC81D, 0xD2B8, 32, 65, 0xC740, 32, 120, 92, 39, 32, 0xAE30, 0xC220,
      0xC744]"

definition text_surrogate :: ustr where \<comment> \<open>peurojekteu A-eun (U+D800) gisul-eul: a technology name that starts with a lone surrogate\<close>
  "text_surrogate =
     [0xD504, 0xB85C, 0xC81D, 0xD2B8, 32, 65, 0xC740, 32, 0xD800, 32, 0xAE30, 0xC220, 0xC744]"

definition text_plain :: ustr where \<comment> \<open>a text no pattern matches\<close>
  "text_plain =
     [72, 101, 108, 108, 111]"

text \<open>All the triples of a text, rule by rule (\<open>mock_value\<close> below).\<close>

definition extracted :: "(nat \<Rightarrow> bool) \<Rightarrow> ustr \<Rightarrow> triple list" where
  "extracted alnum txt =
     map (rule_triple uses_tech txt) (scan alnum pat_project_tech txt 0) @
     map (rule_triple conducts txt) (scan alnum pat_company_proj txt 0) @
     map (rule_triple belongs_to txt) (scan alnum pat_company_industry txt 0)"

text \<open>
  Example runs: a PDF of one page with the given text, read with \<open>alnum_basic\<close>,
  a writable directory, and a database that either answers with the counters of two
  nodes and one relationship created, or is down.
\<close>

definition sink_up :: "ustr \<Rightarrow> ustr + pyobject" where
  "sink_up cypher_query = Inr (summary_counters 2 1)"


definition env_page :: "ustr \<Rightarrow> (ustr \<Rightarrow> ustr + pyobject) \<Rightarrow> env" where
  "env_page page sink =
     \<lparr>unicode_alnum = alnum_basic, pdf_pages = (\<lambda>path. Inr [Some page]),
      session_run = sink, can_write = True\<rparr>"

text \<open>The same, in a directory where no file can be written.\<close>

definition env_readonly :: "ustr \<Rightarrow> (ustr \<Rightarrow> ustr + pyobject) \<Rightarrow> env" where
  "env_readonly page sink =
     \<lparr>unicode_alnum = alnum_basic, pdf_pages = (\<lambda>path. Inr [Some page]),
      session_run = sink, can_write = False\<rparr>"

definition world0 :: world where
  "world0 = \<lparr>stdout = [], files = [], submitted = []\<rparr>"

definition sample_path :: ustr where
  "sample_path = asc ''IT_Consulting_Report_Sample.pdf''"

section \<open>Compilation\<close>

lemma cypher_loop_append: "cypher_loop triples parts = parts @ map cypher_of triples"
  by (induction triples parts rule: cypher_loop.induct) (simp_all add: cypher_of_def Let_def)

text \<open>
  C7.  The loop of \<open>generate_cypher_query\<close> appends exactly one statement per triple, in
  the order of the triples, and the result is these statements joined by newlines.  The
  statement of a triple consists of three \<open>MERGE\<close> clauses built from that triple alone:
  one for the subject node (type and name), one for the object node (type and name),
  and one for the edge of the triple's relation from the first node to the second.
\<close>

theorem compile_one_statement_per_triple:
  "cypher_loop triples [] = map cypher_of triples \<and>
   length (cypher_loop triples []) = length triples \<and>
   generate_cypher_query triples = join [10] (map cypher_of triples) \<and>
   cypher_of (n1_type, n1_name, relation, n2_type, n2_name) =
     [10] @ asc ''        MERGE (n1:'' @ n1_type @ asc '' {name: '' @ [39] @
              replace1 39 [92, 39] n1_name @ [39] @ asc ''})'' @
     [10] @ asc ''        MERGE (n2:'' @ n2_type @ asc '' {name: '' @ [39] @
              replace1 39 [92, 39] n2_name @ [39] @ asc ''})'' @
     [10] @ asc ''        MERGE (n1)-[:'' @ relation @ asc '']->(n2);'' @
     [10] @ asc ''        ''"
  by (simp add: cypher_loop_append generate_cypher_query_def cypher_of_def cypher_text_def)

section \<open>Trimming\<close>







section \<open>The matcher\<close>




lemma scan_sound:
  "(i, e, mk) \<in> set (scan alnum p text j) \<Longrightarrow>
     j \<le> i \<and> i \<le> length text \<and> rx_match alnum p (drop i text) i Map.empty = Some (e, mk)"
  supply scan.simps [simp]
proof (induction alnum p "text" j rule: scan.induct)
  case (1 alnum p "text" j)
  show ?case
  proof (cases "length text < j")
    case True
    with "1.prems" show ?thesis by simp
  next
    case False
    show ?thesis
    proof (cases "rx_match alnum p (drop j text) j Map.empty")
      case None
      with False "1.prems" have "(i, e, mk) \<in> set (scan alnum p text (Suc j))" by simp
      from "1.IH"(1)[OF False None this] show ?thesis by simp
    next
      case (Some a)
      obtain e0 mk0 where a: "a = (e0, mk0)" by (cases a)
      let ?next = "if e0 \<le> j then Suc j else e0"
      from False Some a "1.prems"
      have "(i, e, mk) = (j, e0, mk0) \<or> (i, e, mk) \<in> set (scan alnum p text ?next)" by simp
      then show ?thesis
      proof
        assume "(i, e, mk) = (j, e0, mk0)"
        with False Some a show ?thesis by simp
      next
        assume "(i, e, mk) \<in> set (scan alnum p text ?next)"
        from "1.IH"(2)[OF False Some a[symmetric] this] show ?thesis by (auto split: if_splits)
      qed
    qed
  qed
qed





lemma scan_ordered:
  "sorted_wrt (\<lambda>x y. fst x < fst y \<and> fst (snd x) \<le> fst y) (scan alnum p doc j)"
  supply scan.simps [simp]
proof (induction alnum p doc j rule: scan.induct)
  case (1 alnum p doc j)
  show ?case
  proof (cases "length doc < j")
    case True
    then show ?thesis by simp
  next
    case False
    show ?thesis
    proof (cases "rx_match alnum p (drop j doc) j Map.empty")
      case None
      with False "1.IH"(1) show ?thesis by simp
    next
      case (Some a)
      obtain e0 mk0 where a: "a = (e0, mk0)" by (cases a)
      let ?next = "if e0 \<le> j then Suc j else e0"
      have rest: "sorted_wrt (\<lambda>x y. fst x < fst y \<and> fst (snd x) \<le> fst y) (scan alnum p doc ?next)"
        using "1.IH"(2)[OF False Some a[symmetric]] .
      have "\<forall>y\<in>set (scan alnum p doc ?next). j < fst y \<and> e0 \<le> fst y"
      proof
        fix y assume y: "y \<in> set (scan alnum p doc ?next)"
        obtain i e mk where "y = (i, e, mk)" by (cases y)
        with y scan_sound[of i e mk alnum p doc ?next] show "j < fst y \<and> e0 \<le> fst y"
          by (auto split: if_splits)
      qed
      with rest False Some a show ?thesis by simp
    qed
  qed
qed

lemma append_matches_pairs:
  "\<forall>m\<in>set ms. length m = 2 \<Longrightarrow>
   append_matches f ms acc = Inr (acc @ map (\<lambda>m. f (strip (m ! 0)) (strip (m ! 1))) ms)"
proof (induction ms arbitrary: acc)
  case Nil
  then show ?case by simp
next
  case (Cons m ms)
  then have "length m = 2" by simp
  then obtain a b where m: "m = [a, b]"
    by (cases m; cases "tl m"; cases "tl (tl m)") auto
  with Cons show ?case by simp
qed

section \<open>Extraction\<close>

lemma ngroups_patterns:
  "ngroups pat_project_tech = 2" "ngroups pat_company_proj = 2" "ngroups pat_company_industry = 2"
  by (simp_all add: ngroups_def pat_project_tech_def pat_company_proj_def pat_company_industry_def)

lemma findall_pairs:
  "ngroups p = 2 \<Longrightarrow>
   findall alnum p txt = map (\<lambda>(i, e, mk). [match_group txt mk 1, match_group txt mk 2]) (scan alnum p txt 0)"
proof -
  assume n: "ngroups p = 2"
  have "[1..<Suc 2] = [1, 2]" by (simp add: upt_rec)
  with n show ?thesis by (simp add: findall_def)
qed

lemma append_matches_findall:
  assumes "ngroups p = 2"
  shows "append_matches f (findall alnum p txt) acc =
           Inr (acc @ map (rule_triple f txt) (scan alnum p txt 0))"
proof -
  have "\<forall>m\<in>set (findall alnum p txt). length m = 2"
    by (auto simp: findall_pairs[OF assms])
  from append_matches_pairs[OF this, of f acc] show ?thesis
    by (simp add: findall_pairs[OF assms] rule_triple_def comp_def case_prod_unfold)
qed

lemma mock_value:
  "mock_nlp_to_triples alnum txt out =
     (Inr (extracted alnum txt),
      print (msg_total @ str_nat (length (extracted alnum txt)) @ msg_total_done) (print msg_nlp_start out))"
  by (simp add: mock_nlp_to_triples_def Let_def append_matches_findall ngroups_patterns extracted_def)







text \<open>
  C10.  The result of extraction is the triples of the USES_TECH rule, then those of
  the CONDUCTS rule, then those of the BELONGS_TO rule; within a rule the triples
  follow the matches of the scan, whose start positions increase strictly and which do
  not overlap.  So the order is by rule first, and by position in the text only within
  a rule.
\<close>

theorem extraction_grouped_by_rule:
  "fst (mock_nlp_to_triples alnum doc out) =
     Inr (map (rule_triple uses_tech doc) (scan alnum pat_project_tech doc 0) @
          map (rule_triple conducts doc) (scan alnum pat_company_proj doc 0) @
          map (rule_triple belongs_to doc) (scan alnum pat_company_industry doc 0)) \<and>
   (\<forall>m. relation_of (rule_triple uses_tech doc m) = asc ''USES_TECH'') \<and>
   (\<forall>m. relation_of (rule_triple conducts doc m) = asc ''CONDUCTS'') \<and>
   (\<forall>m. relation_of (rule_triple belongs_to doc m) = asc ''BELONGS_TO'') \<and>
   (\<forall>p. sorted_wrt (\<lambda>x y. fst x < fst y \<and> fst (snd x) \<le> fst y) (scan alnum p doc 0))"
  by (simp add: mock_value extracted_def scan_ordered relation_of_def rule_triple_def
        uses_tech_def conducts_def belongs_to_def split: prod.splits)

section \<open>The examples, evaluated\<close>

lemmas eval_defs = extracted_def scan.simps rule_triple_def match_group_def strip_def is_space_def
  alnum_basic_def pat_project_tech_def pat_company_proj_def pat_company_industry_def
  uses_tech_def conducts_def belongs_to_def asc_def Let_def

lemma extracted_sentence_aaa:
  "extracted alnum_basic sentence_aaa =
     [(asc ''Project'', [0xD504, 0xB85C, 0xC81D, 0xD2B8, 32, 65, 65, 65], asc ''USES_TECH'',
       asc ''Technology'', [80, 121, 116, 104, 111, 110, 32, 0xAE30, 0xC220])]"
  by (simp add: eval_defs sentence_aaa_def)


lemma extracted_text_shadowed:
  "extracted alnum_basic text_shadowed =
     [(asc ''Project'', [0xD504, 0xB85C, 0xC81D, 0xD2B8, 32, 65], asc ''USES_TECH'',
       asc ''Technology'',
       [0xD504, 0xB85C, 0xC81D, 0xD2B8, 32, 65, 65, 65, 0xC740, 32, 80, 121, 116, 104, 111, 110,
        32, 0xAE30, 0xC220])]"
  by (simp add: eval_defs text_shadowed_def)


lemma extracted_text_quote:
  "extracted alnum_basic text_quote =
     [(asc ''Project'', [0xD504, 0xB85C, 0xC81D, 0xD2B8, 32, 65], asc ''USES_TECH'',
       asc ''Technology'', [120, 92, 39, 32, 0xAE30, 0xC220])]"
  by (simp add: eval_defs text_quote_def)

lemma extracted_text_plain: "extracted alnum_basic text_plain = []"
  by (simp add: eval_defs text_plain_def)

lemma extracted_text_twice_page:
  "extracted alnum_basic (text_twice @ [10, 10]) =
     [(asc ''Project'', [0xD504, 0xB85C, 0xC81D, 0xD2B8, 32, 65, 65, 65], asc ''USES_TECH'',
       asc ''Technology'', [80, 121, 116, 104, 111, 110, 32, 0xAE30, 0xC220]),
      (asc ''Project'', [0xD504, 0xB85C, 0xC81D, 0xD2B8, 32, 65, 65, 65], asc ''USES_TECH'',
       asc ''Technology'', [80, 121, 116, 104, 111, 110, 32, 0xAE30, 0xC220])]"
  by (simp add: eval_defs text_twice_def)



lemma scan_text_ccc:
  "map fst (scan alnum_basic pat_project_tech text_ccc 0) = [25] \<and>
   map fst (scan alnum_basic pat_company_proj text_ccc 0) = [0]"
  by (simp add: eval_defs text_ccc_def)

section \<open>The orchestrator\<close>

lemma say_fields [simp]:
  "stdout (say line w) = stdout w @ [line]" "files (say line w) = files w"
  "submitted (say line w) = submitted w"
  by (simp_all add: say_def print_def)

lemma extract_text_fst: "fst (extract_text_from_pdf env p w) = fst (extract_text_from_pdf env p w')"
  by (simp add: extract_text_from_pdf_def split: sum.splits option.splits)

lemma extract_text_snd:
  "files (snd (extract_text_from_pdf env p w)) = files w \<and>
   submitted (snd (extract_text_from_pdf env p w)) = submitted w"
  by (simp add: extract_text_from_pdf_def split: sum.splits option.splits)

lemma execute_cypher_value:
  "execute_cypher env q w =
     (case session_run env q of
        Inr counters \<Rightarrow> (Some counters, w\<lparr>submitted := submitted w @ [q]\<rparr>)
      | Inl e \<Rightarrow> (None, say (msg_query @ q) (say (msg_query_error @ e) (w\<lparr>submitted := submitted w @ [q]\<rparr>))))"
  by (simp add: execute_cypher_def Let_def split: sum.splits)


text \<open>The run, branch by branch, in terms of the document text, its triples and their query.\<close>

lemma pipeline_cases:
  fixes env pdf_path w
  defines "doc \<equiv> fst (extract_text_from_pdf env pdf_path w)"
  defines "triples \<equiv> extracted (unicode_alnum env) doc"
  defines "q \<equiv> generate_cypher_query (extracted (unicode_alnum env) (fst (extract_text_from_pdf env pdf_path w)))"
  defines "run \<equiv> automated_kg_pipeline env pdf_path w"
  shows "(doc = [] \<or> triples = [] \<longrightarrow>
            fst run = Returned None \<and> submitted (snd run) = submitted w \<and> files (snd run) = files w) \<and>
         (doc \<noteq> [] \<and> triples \<noteq> [] \<and> \<not> can_write env \<longrightarrow>
            fst run = Raised OSError \<and> submitted (snd run) = submitted w \<and> files (snd run) = files w) \<and>
         (doc \<noteq> [] \<and> triples \<noteq> [] \<and> can_write env \<and> \<not> utf8_encodable q \<longrightarrow>
            fst run = Raised UnicodeEncodeError \<and> submitted (snd run) = submitted w \<and>
            files (snd run) = files w @ [(asc ''generated_cypher.cypher'', [])]) \<and>
         (doc \<noteq> [] \<and> triples \<noteq> [] \<and> can_write env \<and> utf8_encodable q \<longrightarrow>
            submitted (snd run) = submitted w @ [q] \<and>
            files (snd run) = files w @ [(asc ''generated_cypher.cypher'', q)] \<and>
            fst run =
              (case session_run env q of
                 Inl e \<Rightarrow> Returned None
               | Inr counters \<Rightarrow>
                   (case getattr counters (asc ''nodes'') of
                      Inl e \<Rightarrow> Raised e
                    | Inr n \<Rightarrow>
                        (case getattr counters (asc ''relationships'') of
                           Inl e \<Rightarrow> Raised e
                         | Inr r \<Rightarrow> Returned None))))"
proof -
  let ?w3 = "say (replicate 50 61) (say (msg_pipeline_start @ pdf_path) (say (replicate 50 61) w))"
  obtain d w4 where ex: "extract_text_from_pdf env pdf_path ?w3 = (d, w4)" by fastforce
  have d: "d = doc" unfolding doc_def using extract_text_fst[of env pdf_path ?w3 w] ex by simp
  have w4: "files w4 = files w" "submitted w4 = submitted w"
    using extract_text_snd[of env pdf_path ?w3] ex by simp_all
  show ?thesis
    unfolding run_def automated_kg_pipeline_def Let_def ex
    using w4
    by (auto simp: d mock_value triples_def q_def doc_def[symmetric] execute_cypher_value
             split: prod.splits option.splits sum.splits)
qed




section \<open>Runs of the examples\<close>

lemma env_page_fields [simp]:
  "unicode_alnum (env_page page sink) = alnum_basic" "can_write (env_page page sink)"
  "session_run (env_page page sink) = sink"
  "fst (extract_text_from_pdf (env_page page sink) p w) = page @ [10, 10]"
  by (simp_all add: extract_text_from_pdf_def env_page_def)

lemma env_readonly_fields [simp]:
  "unicode_alnum (env_readonly page sink) = alnum_basic"
  "session_run (env_readonly page sink) = sink"
  "fst (extract_text_from_pdf (env_readonly page sink) p w) = page @ [10, 10]"
  by (simp_all add: extract_text_from_pdf_def env_readonly_def)

lemma extracted_text_ccc_page:
  "extracted alnum_basic (text_ccc @ [10, 10]) =
     [(asc ''Project'', [0xD504, 0xB85C, 0xC81D, 0xD2B8, 32, 67, 67, 67], asc ''USES_TECH'',
       asc ''Technology'', [74, 97, 118, 97, 32, 0xAE30, 0xC220]),
      (asc ''Company'', [67, 32, 0xCEF4, 0xD37C, 0xB2C8], asc ''CONDUCTS'',
       asc ''Project'', [0xD504, 0xB85C, 0xC81D, 0xD2B8, 32, 67, 67, 67])]"
  by (simp add: eval_defs text_ccc_def)


lemma encodable_query_twice:
  "utf8_encodable (generate_cypher_query (extracted alnum_basic (text_twice @ [10, 10])))"
  by (simp add: extracted_text_twice_page generate_cypher_query_def cypher_text_def asc_def
        utf8_encodable_def)

lemma extracted_pages_nonempty:
  "extracted alnum_basic (text_ccc @ [10, 10]) \<noteq> []"
  "extracted alnum_basic (text_twice @ [10, 10]) \<noteq> []"
  by (simp_all add: extracted_text_ccc_page extracted_text_twice_page)



text \<open>
  With the database up, the same page takes the run through the insertion; the counters
  it gets have no attribute \<open>nodes\<close>, and the run ends in \<open>AttributeError\<close> after the
  message of success.
\<close>

lemma attribute_error_after_insertion:
  "fst (automated_kg_pipeline (env_page text_twice sink_up) sample_path world0) = Raised AttributeError"
  using pipeline_cases[of "env_page text_twice sink_up" sample_path world0]
  by (simp add: extracted_pages_nonempty encodable_query_twice sink_up_def getattr_def
        summary_counters_def asc_def)

text \<open>
  A page whose technology name holds a lone surrogate: the query cannot be encoded, and
  the run ends in \<open>UnicodeEncodeError\<close> at the write of the query file, which is left
  empty; nothing is submitted.
\<close>

lemma extracted_text_surrogate_page:
  "extracted alnum_basic (text_surrogate @ [10, 10]) =
     [(asc ''Project'', [0xD504, 0xB85C, 0xC81D, 0xD2B8, 32, 65], asc ''USES_TECH'',
       asc ''Technology'', [0xD800, 32, 0xAE30, 0xC220])]"
  by (simp add: eval_defs text_surrogate_def)

lemma unencodable_query:
  "extracted alnum_basic (text_surrogate @ [10, 10]) \<noteq> []"
  "\<not> utf8_encodable (generate_cypher_query (extracted alnum_basic (text_surrogate @ [10, 10])))"
  by (simp_all add: extracted_text_surrogate_page generate_cypher_query_def cypher_text_def
        asc_def utf8_encodable_def)

lemma encode_error_at_file_write:
  "fst (automated_kg_pipeline (env_page text_surrogate sink_up) sample_path world0) =
     Raised UnicodeEncodeError \<and>
   files (snd (automated_kg_pipeline (env_page text_surrogate sink_up) sample_path world0)) =
     [(asc ''generated_cypher.cypher'', [])] \<and>
   submitted (snd (automated_kg_pipeline (env_page text_surrogate sink_up) sample_path world0)) = []"
  using pipeline_cases[of "env_page text_surrogate sink_up" sample_path world0]
  by (simp add: unencodable_query world0_def)








text \<open>
  C6.  The triples extracted from a text, and the statements compiled from them, do
  not depend on the state in which the run starts: two runs on the same text give the
  same ordered statements, also when the second run starts from the standard output
  the first one left.  (The source has no normalisation stage between extraction and
  compilation.)
\<close>

theorem two_runs_same_statements:
  "fst (mock_nlp_to_triples alnum doc out1) = fst (mock_nlp_to_triples alnum doc out2) \<and>
   map_sum id (\<lambda>triples. cypher_loop triples []) (fst (mock_nlp_to_triples alnum doc out)) =
   map_sum id (\<lambda>triples. cypher_loop triples [])
     (fst (mock_nlp_to_triples alnum doc (snd (mock_nlp_to_triples alnum doc out))))"
  by (simp add: mock_value)


lemma rule_triples_text_ccc:
  "map (rule_triple uses_tech text_ccc) (scan alnum_basic pat_project_tech text_ccc 0) =
     [(asc ''Project'', [0xD504, 0xB85C, 0xC81D, 0xD2B8, 32, 67, 67, 67], asc ''USES_TECH'',
       asc ''Technology'', [74, 97, 118, 97, 32, 0xAE30, 0xC220])]"
  "map (rule_triple conducts text_ccc) (scan alnum_basic pat_company_proj text_ccc 0) =
     [(asc ''Company'', [67, 32, 0xCEF4, 0xD37C, 0xB2C8], asc ''CONDUCTS'',
       asc ''Project'', [0xD504, 0xB85C, 0xC81D, 0xD2B8, 32, 67, 67, 67])]"
  "map (rule_triple belongs_to text_ccc) (scan alnum_basic pat_company_industry text_ccc 0) = []"
  by (simp_all add: eval_defs text_ccc_def)

text \<open>
  In the sentence of the sample report the CONDUCTS match starts at position 0 and
  the USES_TECH match at position 25, yet the USES_TECH triple comes first.
\<close>

theorem extraction_grouped_by_rule_witness:
  "map fst (scan alnum_basic pat_company_proj text_ccc 0) = [0] \<and>
   map fst (scan alnum_basic pat_project_tech text_ccc 0) = [25] \<and>
   fst (mock_nlp_to_triples alnum_basic text_ccc []) =
     Inr [(asc ''Project'', [0xD504, 0xB85C, 0xC81D, 0xD2B8, 32, 67, 67, 67], asc ''USES_TECH'',
           asc ''Technology'', [74, 97, 118, 97, 32, 0xAE30, 0xC220]),
          (asc ''Company'', [67, 32, 0xCEF4, 0xD37C, 0xB2C8], asc ''CONDUCTS'',
           asc ''Project'', [0xD504, 0xB85C, 0xC81D, 0xD2B8, 32, 67, 67, 67])]"
  using extraction_grouped_by_rule[of alnum_basic text_ccc "[]"] scan_text_ccc
  by (simp add: rule_triples_text_ccc)





section \<open>The USES_TECH scenario\<close>

lemma first_some_append_None:
  "\<forall>x\<in>set xs. f x = None \<Longrightarrow> first_some f (xs @ ys) = first_some f ys"
  by (induction xs) simp_all

lemma rx_match_lazy:
  assumes "lo \<le> n" and "n \<le> length (takeWhile (cls_ok alnum cl) s)"
    and "rx_match alnum r (drop n s) (pos + n) mk = Some y"
    and "\<forall>m. lo \<le> m \<and> m < n \<longrightarrow> rx_match alnum r (drop m s) (pos + m) mk = None"
  shows "rx_match alnum (Rep cl lo None False # r) s pos mk = Some y"
proof -
  let ?f = "\<lambda>n. rx_match alnum r (drop n s) (pos + n) mk"
  let ?hi = "length (takeWhile (cls_ok alnum cl) s)"
  have "[lo..<Suc ?hi] = [lo..<n] @ [n..<Suc ?hi]"
    using assms(1,2) by (metis le_Suc_eq le_add_diff_inverse upt_add_eq_append)
  also have "[n..<Suc ?hi] = n # [Suc n..<Suc ?hi]" using assms(2) by (simp add: upt_rec)
  finally have "first_some ?f [lo..<Suc ?hi] = first_some ?f (n # [Suc n..<Suc ?hi])"
    using assms(4) by (simp add: first_some_append_None)
  also have "\<dots> = Some y" using assms(3) by simp
  finally show ?thesis by (simp add: Let_def)
qed

lemma rx_match_greedy:
  assumes "n = min h (length (takeWhile (cls_ok alnum cl) s))" and "lo \<le> n"
    and "rx_match alnum r (drop n s) (pos + n) mk = Some y"
  shows "rx_match alnum (Rep cl lo (Some h) True # r) s pos mk = Some y"
proof -
  have "[lo..<Suc n] = [lo..<n] @ [n]" using assms(2) by simp
  then have "rev [lo..<Suc n] = n # rev [lo..<n]" by simp
  then show ?thesis using assms(1,3) by (simp add: Let_def)
qed

lemma match_sentence_aaa:
  "rx_match alnum pat_project_tech (sentence_aaa @ post) i Map.empty =
     Some (i + 20, [0 \<mapsto> i, 1 \<mapsto> i + 8, 2 \<mapsto> i + 10, 3 \<mapsto> i + 19])"
proof -
  let ?R3 = "[Lit [0x20, 0xAE30, 0xC220], Mark 3, Lit [0xC744]]"
  let ?T = "[80, 121, 116, 104, 111, 110, 0x20, 0xAE30, 0xC220, 0xC744] @ post"
  let ?M2 = "[0 \<mapsto> i, 1 \<mapsto> i + 8, 2 \<mapsto> i + 10]"
  let ?res = "Some (i + 20, [0 \<mapsto> i, 1 \<mapsto> i + 8, 2 \<mapsto> i + 10, 3 \<mapsto> i + 19])"
  have lazy: "rx_match alnum (Rep Dot 1 None False # ?R3) ?T (i + 10) ?M2 = ?res"
  proof (rule rx_match_lazy[where n=6])
    show "(1::nat) \<le> 6" by simp
    show "6 \<le> length (takeWhile (cls_ok alnum Dot) ?T)" by simp
    show "rx_match alnum ?R3 (drop 6 ?T) (i + 10 + 6) ?M2 = ?res" by (simp add: add.commute)
    show "\<forall>m. 1 \<le> m \<and> m < 6 \<longrightarrow> rx_match alnum ?R3 (drop m ?T) (i + 10 + m) ?M2 = None"
    proof (intro allI impI)
      fix m :: nat assume "1 \<le> m \<and> m < 6"
      then consider "m = 1" | "m = 2" | "m = 3" | "m = 4" | "m = 5" by linarith
      then show "rx_match alnum ?R3 (drop m ?T) (i + 10 + m) ?M2 = None"
        by cases simp_all
    qed
  qed
  let ?R2 = "[Mark 1, Lit [0xC740, 0x20], Mark 2, Rep Dot 1 None False, Lit [0x20, 0xAE30, 0xC220], Mark 3, Lit [0xC744]]"
  have greedy: "rx_match alnum (Rep (Range 65 90) 1 (Some 3) True # ?R2)
                  ([65, 65, 65, 0xC740, 0x20] @ ?T) (i + 5) [0 \<mapsto> i] = ?res"
  proof (rule rx_match_greedy[where n=3])
    show "3 = min 3 (length (takeWhile (cls_ok alnum (Range 65 90)) ([65, 65, 65, 0xC740, 0x20] @ ?T)))"
      by simp
    show "(1::nat) \<le> 3" by simp
    show "rx_match alnum ?R2 (drop 3 ([65, 65, 65, 0xC740, 0x20] @ ?T)) (i + 5 + 3) [0 \<mapsto> i] = ?res"
      using lazy by (simp del: rx_match.simps(4) add: add.commute)
  qed
  have e: "Suc (Suc (Suc (Suc (Suc i)))) = i + 5" by simp
  show ?thesis
    using greedy by (simp add: pat_project_tech_def sentence_aaa_def e del: rx_match.simps(4))
qed

lemma scan_reaches:
  assumes "j \<le> k" and "k \<le> length doc"
    and "\<forall>m\<in>set (scan alnum p doc j). fst m < k \<longrightarrow> fst (snd m) \<le> k"
  shows "\<exists>xs. scan alnum p doc j = xs @ scan alnum p doc k"
  using assms
proof (induction alnum p doc j rule: scan.induct)
  case (1 alnum p doc j)
  show ?case
  proof (cases "j = k")
    case True
    then show ?thesis by simp
  next
    case False
    with "1.prems" have lt: "j < k" and len: "\<not> length doc < j" by simp_all
    show ?thesis
    proof (cases "rx_match alnum p (drop j doc) j Map.empty")
      case None
      with len have eq: "scan alnum p doc j = scan alnum p doc (Suc j)"
        by (simp add: scan.simps[of alnum p doc j])
      have "\<exists>xs. scan alnum p doc (Suc j) = xs @ scan alnum p doc k"
        using "1.IH"(1)[OF len None] lt "1.prems"(2,3) by (simp add: eq)
      then show ?thesis by (simp add: eq)
    next
      case (Some a)
      obtain e mk where a: "a = (e, mk)" by (cases a)
      let ?next = "if e \<le> j then Suc j else e"
      have eq: "scan alnum p doc j = (j, e, mk) # scan alnum p doc ?next"
        using len Some a by (simp add: scan.simps[of alnum p doc j])
      have "e \<le> k" using "1.prems"(3) lt by (simp add: eq)
      then have nk: "?next \<le> k" using lt by simp
      have "\<forall>m\<in>set (scan alnum p doc ?next). fst m < k \<longrightarrow> fst (snd m) \<le> k"
        using "1.prems"(3) by (simp add: eq)
      from "1.IH"(2)[OF len Some a[symmetric] nk "1.prems"(2) this]
      obtain xs where "scan alnum p doc ?next = xs @ scan alnum p doc k" by blast
      then have "scan alnum p doc j = ((j, e, mk) # xs) @ scan alnum p doc k" by (simp add: eq)
      then show ?thesis by blast
    qed
  qed
qed

lemma uses_tech_member:
  assumes "\<forall>m\<in>set (scan alnum pat_project_tech (pre @ sentence_aaa @ post) 0).
             fst m < length pre \<longrightarrow> fst (snd m) \<le> length pre"
  shows "(asc ''Project'', [0xD504, 0xB85C, 0xC81D, 0xD2B8, 32, 65, 65, 65], asc ''USES_TECH'',
          asc ''Technology'', [80, 121, 116, 104, 111, 110, 32, 0xAE30, 0xC220])
         \<in> set (extracted alnum (pre @ sentence_aaa @ post))"
proof -
  let ?doc = "pre @ sentence_aaa @ post"
  let ?k = "length pre"
  let ?M = "[0 \<mapsto> ?k, 1 \<mapsto> ?k + 8, 2 \<mapsto> ?k + 10, 3 \<mapsto> ?k + 19]"
  have "\<exists>xs. scan alnum pat_project_tech ?doc 0 = xs @ scan alnum pat_project_tech ?doc ?k"
    by (rule scan_reaches) (use assms in simp_all)
  then obtain xs where xs: "scan alnum pat_project_tech ?doc 0 = xs @ scan alnum pat_project_tech ?doc ?k"
    by blast
  have m: "rx_match alnum pat_project_tech (drop ?k ?doc) ?k Map.empty = Some (?k + 20, ?M)"
    using match_sentence_aaa[of alnum post ?k] by simp
  have at_k: "scan alnum pat_project_tech ?doc ?k =
          (?k, ?k + 20, ?M) # scan alnum pat_project_tech ?doc (?k + 20)"
    using m by (simp add: scan.simps[of alnum pat_project_tech ?doc ?k])
  have g1: "match_group ?doc ?M 1 = [0xD504, 0xB85C, 0xC81D, 0xD2B8, 32, 65, 65, 65]"
    by (simp add: match_group_def sentence_aaa_def)
  have g2: "match_group ?doc ?M 2 = [80, 121, 116, 104, 111, 110, 32, 0xAE30, 0xC220]"
    by (simp add: match_group_def sentence_aaa_def)
  have "rule_triple uses_tech ?doc (?k, ?k + 20, ?M) =
          (asc ''Project'', [0xD504, 0xB85C, 0xC81D, 0xD2B8, 32, 65, 65, 65], asc ''USES_TECH'',
           asc ''Technology'', [80, 121, 116, 104, 111, 110, 32, 0xAE30, 0xC220])"
    unfolding rule_triple_def prod.case g1 g2 by (simp add: uses_tech_def strip_def is_space_def)
  moreover have "(?k, ?k + 20, ?M) \<in> set (scan alnum pat_project_tech ?doc 0)"
    by (simp add: xs at_k)
  ultimately have "(asc ''Project'', [0xD504, 0xB85C, 0xC81D, 0xD2B8, 32, 65, 65, 65], asc ''USES_TECH'',
           asc ''Technology'', [80, 121, 116, 104, 111, 110, 32, 0xAE30, 0xC220])
         \<in> rule_triple uses_tech ?doc ` set (scan alnum pat_project_tech ?doc 0)"
    by (metis imageI)
  then show ?thesis by (simp add: extracted_def)
qed

text \<open>
  C3 as stated fails.  On the text that is exactly the sentence, extraction yields one
  triple, whose object name is the whole second group, \<open>Python gisul\<close> ("Python
  technology"), not \<open>Python\<close>: the group of the pattern includes the word
  \<open>gisul\<close>.
\<close>

theorem uses_tech_scenario_counterexample:
  "fst (mock_nlp_to_triples alnum_basic sentence_aaa []) =
     Inr [(asc ''Project'', [0xD504, 0xB85C, 0xC81D, 0xD2B8, 32, 65, 65, 65], asc ''USES_TECH'',
           asc ''Technology'', [80, 121, 116, 104, 111, 110, 32, 0xAE30, 0xC220])] \<and>
   [80, 121, 116, 104, 111, 110, 32, 0xAE30, 0xC220] \<noteq> asc ''Python''"
  by (simp add: mock_value extracted_sentence_aaa asc_def)

text \<open>
  C3, as amended.  For every text that contains the sentence, and in which no earlier
  match of the USES_TECH pattern runs over the sentence (every match that \<open>findall\<close>
  finds starting before the sentence ends before it), extraction yields the triple
  (Project, \<open>peurojekteu AAA\<close>, USES_TECH, Technology, \<open>Python gisul\<close>).
\<close>

theorem uses_tech_scenario:
  assumes "\<forall>m\<in>set (scan alnum pat_project_tech (pre @ sentence_aaa @ post) 0).
             fst m < length pre \<longrightarrow> fst (snd m) \<le> length pre"
  shows "\<exists>triples. fst (mock_nlp_to_triples alnum (pre @ sentence_aaa @ post) out) = Inr triples \<and>
           (asc ''Project'', [0xD504, 0xB85C, 0xC81D, 0xD2B8, 32, 65, 65, 65], asc ''USES_TECH'',
            asc ''Technology'', [80, 121, 116, 104, 111, 110, 32, 0xAE30, 0xC220]) \<in> set triples"
  using uses_tech_member[OF assms] by (simp add: mock_value)

lemma scan_two_projects:
  "map (\<lambda>m. (fst m, fst (snd m))) (scan alnum_basic pat_project_tech (prefix_bbb @ sentence_aaa @ []) 0) =
     [(0, 17), (22, 42)]"
  by (simp add: eval_defs prefix_bbb_def sentence_aaa_def)

text \<open>
  The sentence after an earlier sentence of the same kind, about project BBB: the
  earlier match covers positions 0 to 17 and the sentence starts at position 22.
\<close>

theorem uses_tech_scenario_witness:
  "map (\<lambda>m. (fst m, fst (snd m))) (scan alnum_basic pat_project_tech (prefix_bbb @ sentence_aaa @ []) 0) =
     [(0, 17), (22, 42)] \<and>
   length prefix_bbb = 22 \<and>
   (\<exists>triples. fst (mock_nlp_to_triples alnum_basic (prefix_bbb @ sentence_aaa @ []) []) = Inr triples \<and>
           (asc ''Project'', [0xD504, 0xB85C, 0xC81D, 0xD2B8, 32, 65, 65, 65], asc ''USES_TECH'',
            asc ''Technology'', [80, 121, 116, 104, 111, 110, 32, 0xAE30, 0xC220]) \<in> set triples)"
proof -
  let ?scan = "scan alnum_basic pat_project_tech (prefix_bbb @ sentence_aaa @ []) 0"
  have len: "length prefix_bbb = 22" by (simp add: prefix_bbb_def)
  have "\<forall>x\<in>set (map (\<lambda>m. (fst m, fst (snd m))) ?scan). fst x < 22 \<longrightarrow> snd x \<le> 22"
    unfolding scan_two_projects by simp
  then have h: "\<forall>m\<in>set ?scan. fst m < length prefix_bbb \<longrightarrow> fst (snd m) \<le> length prefix_bbb"
    unfolding len by simp
  from uses_tech_scenario[OF h, of "[]"] scan_two_projects len show ?thesis by blast
qed

text \<open>
  The condition cannot be dropped: in \<open>text_shadowed\<close> a match starts before the
  sentence and swallows it, so the only triple has another subject and another object.
\<close>

lemma shadowed_sentence:
  "text_shadowed = [0xD504, 0xB85C, 0xC81D, 0xD2B8, 32, 65, 0xC740, 32] @ sentence_aaa \<and>
   fst (mock_nlp_to_triples alnum_basic text_shadowed []) =
     Inr [(asc ''Project'', [0xD504, 0xB85C, 0xC81D, 0xD2B8, 32, 65], asc ''USES_TECH'',
           asc ''Technology'',
           [0xD504, 0xB85C, 0xC81D, 0xD2B8, 32, 65, 65, 65, 0xC740, 32, 80, 121, 116, 104, 111, 110,
            32, 0xAE30, 0xC220])]"
proof
  show "text_shadowed = [0xD504, 0xB85C, 0xC81D, 0xD2B8, 32, 65, 0xC740, 32] @ sentence_aaa"
    by (simp add: text_shadowed_def sentence_aaa_def)
qed (simp add: mock_value extracted_text_shadowed)

section \<open>Names in the compiled statements\<close>

text \<open>
  A name without a backslash is read back by the sink as it was: the \<open>replace\<close>
  of the source is enough for apostrophes alone.
\<close>

lemma read_quoted_plain:
  "92 \<notin> set name \<Longrightarrow> read_quoted (replace1 39 [92, 39] name @ 39 # rest) = Some (name, rest)"
proof (induction name)
  case Nil
  show ?case by (cases rest) simp_all
next
  case (Cons c name)
  then have IH: "read_quoted (replace1 39 [92, 39] name @ 39 # rest) = Some (name, rest)" by simp
  from Cons.prems have c: "c \<noteq> 92" by simp
  show ?case
  proof (cases "c = 39")
    case True
    then show ?thesis using IH by (simp add: unescape_def)
  next
    case False
    obtain d s where ds: "replace1 39 [92, 39] name @ 39 # rest = d # s"
      by (cases "replace1 39 [92, 39] name @ 39 # rest") simp_all
    show ?thesis using False c IH ds by simp
  qed
qed

text \<open>
  C1 fails on the code.  The text \<open>text_quote\<close> yields a technology name that holds
  a backslash followed by an apostrophe.  \<open>replace\<close> turns the apostrophe into
  backslash-apostrophe and leaves the backslash alone, so the statement holds two
  backslashes and then an apostrophe; the sink reads an escaped backslash and the end
  of the literal.  The value read back is \<open>x\<close> followed by one backslash, not the name, and the rest of
  the name stands outside the literal, in the statement's structure.
\<close>

theorem quote_escape_misses_backslash:
  "fst (mock_nlp_to_triples alnum_basic text_quote []) =
     Inr [(asc ''Project'', [0xD504, 0xB85C, 0xC81D, 0xD2B8, 32, 65], asc ''USES_TECH'',
           asc ''Technology'', [120, 92, 39, 32, 0xAE30, 0xC220])] \<and>
   generate_cypher_query
     [(asc ''Project'', [0xD504, 0xB85C, 0xC81D, 0xD2B8, 32, 65], asc ''USES_TECH'',
       asc ''Technology'', [120, 92, 39, 32, 0xAE30, 0xC220])] =
     [10] @ asc ''        MERGE (n1:Project {name: '' @ [39] @ [0xD504, 0xB85C, 0xC81D, 0xD2B8, 32, 65] @
              [39] @ asc ''})'' @
     [10] @ asc ''        MERGE (n2:Technology {name: '' @ [39] @ [120, 92, 92, 39, 32, 0xAE30, 0xC220] @
              [39] @ asc ''})'' @
     [10] @ asc ''        MERGE (n1)-[:USES_TECH]->(n2);'' @
     [10] @ asc ''        '' \<and>
   read_quoted ([120, 92, 92, 39, 32, 0xAE30, 0xC220] @ [39] @ asc ''})'' @
                [10] @ asc ''        MERGE (n1)-[:USES_TECH]->(n2);'' @ [10] @ asc ''        '') =
     Some ([120, 92],
           [32, 0xAE30, 0xC220, 39] @ asc ''})'' @
           [10] @ asc ''        MERGE (n1)-[:USES_TECH]->(n2);'' @ [10] @ asc ''        '')"
  by (simp add: mock_value extracted_text_quote generate_cypher_query_def cypher_text_def
        unescape_def asc_def)

end
